theory Spec2Isabelle
  imports Complex_Main
begin

section \<open>Office item classifier: the detection pipeline\<close>

text \<open>
  A shallow embedding of \<^verbatim>\<open>model_loader.py\<close>, \<^verbatim>\<open>camera_handler.py\<close>,
  \<^verbatim>\<open>file_processor.py\<close> and the snapshot and upload handlers of
  \<^verbatim>\<open>ui/main_window.py\<close>.

  Python floats are modelled as reals (no NaN, no infinities), numpy arrays as objects in
  an explicit store, Python exceptions caught by \<^verbatim>\<open>except Exception\<close> as values of
  \<open>py_exception\<close>, and the external libraries (the YOLO model, OpenCV file input and
  output) as functions handed to the code.
\<close>

subsection \<open>Strings and number formatting\<close>

definition digit :: "nat \<Rightarrow> char" where
  "digit n = ''0123456789'' ! (n mod 10)"

fun str_nat :: "nat \<Rightarrow> string" where
  "str_nat n = (if n < 10 then [digit n] else str_nat (n div 10) @ [digit n])"

declare str_nat.simps [simp del]

text \<open>Python's \<^verbatim>\<open>str(i)\<close> of an integer, as used by an f-string.\<close>

definition str_int :: "int \<Rightarrow> string" where
  "str_int i = (if i < 0 then CHR ''-'' # str_nat (nat (- i)) else str_nat (nat i))"

text \<open>Python's \<^verbatim>\<open>int(x)\<close> of a float: truncation towards zero.\<close>

definition py_int :: "real \<Rightarrow> int" where
  "py_int x = (if 0 \<le> x then \<lfloor>x\<rfloor> else \<lceil>x\<rceil>)"

text \<open>Rounding to the nearest integer, ties to the even one, as float formatting does.\<close>

definition round_half_even :: "real \<Rightarrow> int" where
  "round_half_even x =
     (let f = \<lfloor>x\<rfloor>; d = x - of_int f
      in if d < 1 / 2 then f else if 1 / 2 < d then f + 1 else if even f then f else f + 1)"

text \<open>The format specification \<^verbatim>\<open>:.2f\<close>.\<close>

definition fmt2f :: "real \<Rightarrow> string" where
  "fmt2f x =
     (let n = nat (round_half_even (\<bar>x\<bar> * 100))
      in (if x < 0 then ''-'' else '''') @ str_nat (n div 100) @ ''.''
           @ [digit (n div 10), digit n])"

subsection \<open>Images, the store and exceptions\<close>

text \<open>
  An image is its captured pixel buffer together with the OpenCV drawing calls applied to
  it since, oldest first. Colours are BGR triples; a thickness of \<open>-1\<close> fills.
\<close>

type_synonym point = "int \<times> int"
type_synonym colour = "int \<times> int \<times> int"

datatype draw_op =
    Rectangle point point colour int
  | PutText string point real colour int
  | Flip int

record image =
  pixels :: "nat list"
  drawn :: "draw_op list"

text \<open>
  The store holds every live array; a reference is an index into it. \<^verbatim>\<open>image.copy()\<close>
  allocates a new array, the drawing functions of OpenCV write into the array they are
  given.
\<close>

type_synonym ref = nat
type_synonym store = "image list"

definition copy_image :: "store \<Rightarrow> ref \<Rightarrow> store \<times> ref" where
  "copy_image h r = (h @ [h ! r], length h)"

definition new_image :: "store \<Rightarrow> image \<Rightarrow> store \<times> ref" where
  "new_image h img = (h @ [img], length h)"

definition draw :: "store \<Rightarrow> ref \<Rightarrow> draw_op \<Rightarrow> store" where
  "draw h r op = h[r := (h ! r)\<lparr>drawn := drawn (h ! r) @ [op]\<rparr>]"

datatype py_exception = PyException string

subsection \<open>The model and its results\<close>

text \<open>
  One candidate of a result: \<^verbatim>\<open>float(box.conf[0])\<close>, \<^verbatim>\<open>box.cls[0]\<close> and
  \<^verbatim>\<open>box.xyxy[0]\<close>.
\<close>

record box =
  box_conf :: real
  box_cls :: real
  box_xyxy :: "real \<times> real \<times> real \<times> real"

text \<open>\<open>boxes = None\<close>: the result has no attribute \<^verbatim>\<open>boxes\<close>, or it is \<^verbatim>\<open>None\<close>.\<close>

record result =
  boxes :: "box list option"

text \<open>
  The loaded YOLO object: its \<^verbatim>\<open>names\<close> attribute (\<open>None\<close> when absent), the outcome of
  the warm-up call on a random image, and \<^verbatim>\<open>predict\<close> as a function of the image, of
  \<^verbatim>\<open>imgsz\<close> and of \<^verbatim>\<open>max_det\<close> (the other arguments are the same at every call).
\<close>

record yolo =
  names :: "(int \<times> string) list option"
  warmup :: "py_exception option"
  predict :: "image \<Rightarrow> nat \<Rightarrow> nat \<Rightarrow> py_exception + result list"

record detection =
  class_name :: string
  confidence :: real
  class_id :: "int option"

subsection \<open>ModelLoader\<close>

text \<open>
  The fields of \<^verbatim>\<open>ModelLoader\<close>. The two queues have \<^verbatim>\<open>maxsize=1\<close>; they are lists,
  oldest entry first. \<open>YOLO\<close> is the imported constructor, a function of the path.
\<close>

record model_loader =
  model :: "yolo option"
  class_names :: "(int \<times> string) list"
  detection_queue :: "ref list"
  result_queue :: "(ref \<times> detection option) list"
  is_processing :: bool
  last_result :: "(ref \<times> detection option) option"
  use_mock :: bool
  YOLO :: "string \<Rightarrow> py_exception + yolo"

text \<open>\<^verbatim>\<open>__init__\<close>: \<open>imported\<close> is \<open>None\<close> when the import of ultralytics fails.\<close>

definition init_loader :: "(string \<Rightarrow> py_exception + yolo) option \<Rightarrow> model_loader" where
  "init_loader imported =
     \<lparr>model = None, class_names = [], detection_queue = [], result_queue = [],
      is_processing = False, last_result = None,
      use_mock = (imported = None),
      YOLO = (case imported of None \<Rightarrow> (\<lambda>_. Inl (PyException ''AttributeError''))
                | Some y \<Rightarrow> y)\<rparr>"

definition default_names :: "(int \<times> string) list" where
  "default_names =
     [(0, ''Bin''), (1, ''Bottle''), (2, ''Keyboard''), (3, ''Laptop''), (4, ''Mouse''),
      (5, ''Mug''), (6, ''Notebook''), (7, ''Pen''), (8, ''Phone''), (9, ''Stapler'')]"

text \<open>
  \<^verbatim>\<open>load_model\<close> returns its value and the updated object. \<open>Inl e\<close> would be an exception
  leaving the method; the \<^verbatim>\<open>except Exception\<close> clause is the last branch of each
  \<open>case\<close>.
\<close>

definition load_model :: "model_loader \<Rightarrow> string \<Rightarrow> py_exception + (bool \<times> model_loader)" where
  "load_model L model_path =
     (if use_mock L then Inr (True, L\<lparr>class_names := [(0, ''Object'')]\<rparr>)
      else
        (case YOLO L model_path of
           Inl e \<Rightarrow> Inr (True, L\<lparr>use_mock := True, class_names := [(0, ''Object'')]\<rparr>)
         | Inr m \<Rightarrow>
             (let L1 = L\<lparr>model := Some m\<rparr>
              in case warmup m of
                   Some e \<Rightarrow> Inr (True, L1\<lparr>use_mock := True, class_names := [(0, ''Object'')]\<rparr>)
                 | None \<Rightarrow>
                     (case names m of
                        Some (n # ns) \<Rightarrow> Inr (True, L1\<lparr>class_names := n # ns\<rparr>)
                      | _ \<Rightarrow> Inr (True, L1\<lparr>class_names := default_names\<rparr>)))))"

text \<open>
  \<^verbatim>\<open>MainWindow.load_model\<close>: the messages it logs and the loader afterwards. The worker
  thread is started in the first branch only.
\<close>

definition start_processing :: "model_loader \<Rightarrow> model_loader" where
  "start_processing L = L\<lparr>is_processing := True\<rparr>"

definition stop_processing :: "model_loader \<Rightarrow> model_loader" where
  "stop_processing L = L\<lparr>is_processing := False\<rparr>"

definition window_load_model :: "model_loader \<Rightarrow> py_exception + (string list \<times> model_loader)" where
  "window_load_model L =
     (case load_model L ''trained_model/best.pt'' of
        Inl e \<Rightarrow> Inl e
      | Inr (ok, L') \<Rightarrow>
          if ok then Inr ([''Loading YOLOv11 model...'', ''Model loaded successfully!''],
                          start_processing L')
          else Inr ([''Loading YOLOv11 model...'', ''Failed to load model''], L'))"

subsection \<open>Synchronous prediction\<close>

text \<open>\<^verbatim>\<open>self.class_names.get(class_id, f"Class_{class_id}")\<close>\<close>

definition lookup_name :: "(int \<times> string) list \<Rightarrow> int \<Rightarrow> string" where
  "lookup_name cn cid = (case map_of cn cid of Some n \<Rightarrow> n | None \<Rightarrow> ''Class_'' @ str_int cid)"

definition detection_of :: "(int \<times> string) list \<Rightarrow> box \<Rightarrow> detection" where
  "detection_of cn b =
     (let cid = py_int (box_cls b)
      in \<lparr>class_name = lookup_name cn cid, confidence = box_conf b, class_id = Some cid\<rparr>)"

text \<open>
  The first loop over \<^verbatim>\<open>result.boxes\<close>, with its two variables
  \<^verbatim>\<open>highest_confidence\<close> and \<^verbatim>\<open>best_detection\<close>.
\<close>

fun find_best ::
  "(int \<times> string) list \<Rightarrow> box list \<Rightarrow> real \<Rightarrow> detection option \<Rightarrow> real \<times> detection option"
where
  "find_best cn [] highest best = (highest, best)"
| "find_best cn (b # bs) highest best =
     (if box_conf b > highest then find_best cn bs (box_conf b) (Some (detection_of cn b))
      else find_best cn bs highest best)"

text \<open>
  \<^verbatim>\<open>cv2.getTextSize(label, FONT_HERSHEY_SIMPLEX, 0.5, 2)[0]\<close> is a function of the label,
  handed to the code as \<open>text_size\<close>. The three drawing calls for one box:
\<close>

definition annotate :: "(string \<Rightarrow> int \<times> int) \<Rightarrow> (int \<times> string) list \<Rightarrow> box \<Rightarrow> draw_op list" where
  "annotate text_size cn b =
     (case box_xyxy b of (rx1, ry1, rx2, ry2) \<Rightarrow>
        (let x1 = py_int rx1; y1 = py_int ry1; x2 = py_int rx2; y2 = py_int ry2;
             label = lookup_name cn (py_int (box_cls b)) @ '' '' @ fmt2f (box_conf b);
             label_size = text_size label
         in [Rectangle (x1, y1) (x2, y2) (0, 255, 0) 2,
             Rectangle (x1, y1 - snd label_size - 10) (x1 + fst label_size, y1) (0, 255, 0) (- 1),
             PutText label (x1, y1 - 5) (1 / 2) (255, 255, 255) 2]))"

text \<open>The second loop: it draws the first box whose confidence is the highest, then breaks.\<close>

fun draw_highest ::
  "(string \<Rightarrow> int \<times> int) \<Rightarrow> (int \<times> string) list \<Rightarrow> store \<Rightarrow> ref \<Rightarrow> box list \<Rightarrow> real \<Rightarrow> store"
where
  "draw_highest text_size cn h a [] highest = h"
| "draw_highest text_size cn h a (b # bs) highest =
     (if box_conf b = highest then foldl (\<lambda>h' op. draw h' a op) h (annotate text_size cn b)
      else draw_highest text_size cn h a bs highest)"

text \<open>
  The body of the \<^verbatim>\<open>try\<close> block of \<^verbatim>\<open>predict_single\<close>; \<open>Inl\<close> is an exception raised
  inside it. A loader that is not in mock mode and has no model does not reach it.
\<close>

definition predict_single_body ::
  "(string \<Rightarrow> int \<times> int) \<Rightarrow> model_loader \<Rightarrow> yolo \<Rightarrow> store \<Rightarrow> ref
     \<Rightarrow> py_exception + (store \<times> ref \<times> detection option)"
where
  "predict_single_body text_size L m h img =
     (case predict m (h ! img) 320 10 of
        Inl e \<Rightarrow> Inl e
      | Inr results \<Rightarrow>
          (case results of
             [] \<Rightarrow> Inr (h, img, None)
           | res # _ \<Rightarrow>
               (case boxes res of
                  None \<Rightarrow> Inr (h, img, None)
                | Some bs \<Rightarrow>
                    (case find_best (class_names L) bs 0 None of
                       (highest, None) \<Rightarrow> Inr (h, img, None)
                     | (highest, Some best) \<Rightarrow>
                         (case copy_image h img of
                            (h1, annotated) \<Rightarrow>
                              Inr (draw_highest text_size (class_names L) h1 annotated bs highest,
                                   annotated, Some best))))))"

text \<open>
  \<^verbatim>\<open>predict_single\<close> returns the store, the reference of the returned image and the
  detection. Its \<^verbatim>\<open>except Exception\<close> clause returns the image it was given.
\<close>

definition predict_single ::
  "(string \<Rightarrow> int \<times> int) \<Rightarrow> model_loader \<Rightarrow> store \<Rightarrow> ref \<Rightarrow> store \<times> ref \<times> detection option"
where
  "predict_single text_size L h img =
     (case model L of
        None \<Rightarrow> (h, img, None)
      | Some m \<Rightarrow>
          if use_mock L then (h, img, None)
          else (case predict_single_body text_size L m h img of
                  Inl e \<Rightarrow> (h, img, None)
                | Inr r \<Rightarrow> r))"

subsection \<open>The asynchronous path\<close>

text \<open>
  \<^verbatim>\<open>queue.Queue\<close>: \<^verbatim>\<open>put_nowait\<close> raises \<^verbatim>\<open>Full\<close> when the queue holds \<open>maxsize\<close>
  entries, \<^verbatim>\<open>get_nowait\<close> raises \<^verbatim>\<open>Empty\<close> on an empty queue. Neither waits.
\<close>

definition put_nowait :: "nat \<Rightarrow> 'a list \<Rightarrow> 'a \<Rightarrow> py_exception + 'a list" where
  "put_nowait maxsize q x =
     (if 0 < maxsize \<and> maxsize \<le> length q then Inl (PyException ''Full'') else Inr (q @ [x]))"

definition get_nowait :: "'a list \<Rightarrow> py_exception + ('a \<times> 'a list)" where
  "get_nowait q = (case q of [] \<Rightarrow> Inl (PyException ''Empty'') | x # xs \<Rightarrow> Inr (x, xs))"

text \<open>
  \<^verbatim>\<open>predict_async\<close> returns the loader and the pair it hands back. Both \<^verbatim>\<open>except\<close>
  clauses are the \<open>Inl\<close> branches.
\<close>

definition predict_async ::
  "model_loader \<Rightarrow> ref \<Rightarrow> model_loader \<times> (ref \<times> detection option)"
where
  "predict_async L frame =
     (if \<not> is_processing L then (L, (frame, None))
      else
        (let L1 = (if detection_queue L = [] then
                     (case put_nowait 1 (detection_queue L) frame of
                        Inl e \<Rightarrow> L
                      | Inr q \<Rightarrow> L\<lparr>detection_queue := q\<rparr>)
                   else L)
         in case get_nowait (result_queue L1) of
              Inr (r, q) \<Rightarrow> (L1\<lparr>result_queue := q\<rparr>, r)
            | Inl e \<Rightarrow> (L1, (case last_result L1 of Some r \<Rightarrow> r | None \<Rightarrow> (frame, None)))))"

definition mock_detection :: detection where
  "mock_detection = \<lparr>class_name = ''Mock'', confidence = 95 / 100, class_id = None\<rparr>"

text \<open>The end of both branches of the worker: remember the result, publish it into an empty slot.\<close>

definition publish :: "model_loader \<Rightarrow> ref \<times> detection option \<Rightarrow> model_loader" where
  "publish L r =
     (let L1 = L\<lparr>last_result := Some r\<rparr>
      in if result_queue L1 = [] then L1\<lparr>result_queue := result_queue L1 @ [r]\<rparr> else L1)"

text \<open>The loop over \<^verbatim>\<open>result.boxes\<close> of the worker breaks after the first box.\<close>

definition first_detection :: "(int \<times> string) list \<Rightarrow> result list \<Rightarrow> detection option" where
  "first_detection cn results =
     (case results of
        [] \<Rightarrow> None
      | res # _ \<Rightarrow>
          (case boxes res of
             None \<Rightarrow> None
           | Some [] \<Rightarrow> None
           | Some (b # _) \<Rightarrow> Some (detection_of cn b)))"

text \<open>
  One iteration of the loop of \<^verbatim>\<open>_process_queue\<close>, entered with \<open>is_processing\<close> set.
  \<^verbatim>\<open>get(timeout=0.01)\<close> on an empty queue raises \<^verbatim>\<open>Empty\<close> after the timeout; the bare
  \<^verbatim>\<open>except\<close> continues the loop, as it does when the model is missing or \<^verbatim>\<open>predict\<close>
  raises, with the frame already taken. A reference is never \<^verbatim>\<open>None\<close>, so the
  \<^verbatim>\<open>break\<close> is not taken.
\<close>

definition process_queue_step :: "model_loader \<Rightarrow> store \<Rightarrow> model_loader \<times> store" where
  "process_queue_step L h =
     (case get_nowait (detection_queue L) of
        Inl e \<Rightarrow> (L, h)
      | Inr (frame, q) \<Rightarrow>
          (let L1 = L\<lparr>detection_queue := q\<rparr>
           in if use_mock L1 then
                (case copy_image h frame of
                   (h1, display_frame) \<Rightarrow>
                     (let h2 = draw h1 display_frame (Rectangle (50, 50) (200, 200) (0, 255, 0) 2);
                          h3 = draw h2 display_frame
                                 (PutText ''Mock Detection'' (60, 40) (7 / 10) (0, 255, 0) 2)
                      in (publish L1 (display_frame, Some mock_detection), h3)))
              else
                (case model L1 of
                   None \<Rightarrow> (L1, h)
                 | Some m \<Rightarrow>
                     (case predict m (h ! frame) 256 1 of
                        Inl e \<Rightarrow> (L1, h)
                      | Inr results \<Rightarrow>
                          (case copy_image h frame of
                             (h1, display_frame) \<Rightarrow>
                               (publish L1 (display_frame,
                                            first_detection (class_names L1) results), h1))))))"

text \<open>
  The threads interleave at the level of whole calls: the interface thread starts and
  stops the worker and calls \<^verbatim>\<open>predict_async\<close> with a newly captured frame, the worker
  runs one iteration of its loop while \<open>is_processing\<close> is set.
\<close>

datatype event = Start_processing | Stop_processing | Predict_async image | Worker_iteration

fun step :: "model_loader \<times> store \<Rightarrow> event \<Rightarrow> model_loader \<times> store" where
  "step (L, h) Start_processing = (start_processing L, h)"
| "step (L, h) Stop_processing = (stop_processing L, h)"
| "step (L, h) (Predict_async im) =
     (case new_image h im of (h1, frame) \<Rightarrow> (fst (predict_async L frame), h1))"
| "step (L, h) Worker_iteration = (if is_processing L then process_queue_step L h else (L, h))"

definition run :: "model_loader \<times> store \<Rightarrow> event list \<Rightarrow> model_loader \<times> store" where
  "run s evs = foldl step s evs"

text \<open>
  Two invariants of the interleaving. The slot of results, when it is full, holds the
  result remembered last, and a frame waits only while that slot is empty; in placeholder
  mode every remembered result is the placeholder detection.
\<close>

definition queue_inv :: "model_loader \<Rightarrow> bool" where
  "queue_inv L \<longleftrightarrow>
     length (detection_queue L) \<le> 1 \<and>
     (case result_queue L of [] \<Rightarrow> True | [r] \<Rightarrow> last_result L = Some r | _ \<Rightarrow> False) \<and>
     (detection_queue L = [] \<or> result_queue L = [])"

definition mock_inv :: "model_loader \<Rightarrow> bool" where
  "mock_inv L \<longleftrightarrow>
     use_mock L \<and>
     (case last_result L of None \<Rightarrow> True | Some (r, d) \<Rightarrow> d = Some mock_detection)"

subsection \<open>Paths, files and signals\<close>


definition path_join :: "string \<Rightarrow> string \<Rightarrow> string" where
  "path_join a b =
     (if b \<noteq> [] \<and> hd b = CHR ''/'' then b
      else if a = [] \<or> last a = CHR ''/'' then a @ b
      else a @ ''/'' @ b)"

text \<open>
  What the code asks of the operating system and of OpenCV: \<^verbatim>\<open>cv2.imread\<close> returns
  \<open>None\<close> for a file it cannot decode, \<^verbatim>\<open>cv2.imwrite\<close> returns whether it wrote, each
  of the calls may raise.
\<close>

record os_env =
  imread :: "string \<Rightarrow> py_exception + image option"
  imwrite :: "string \<Rightarrow> image \<Rightarrow> py_exception + bool"
  makedirs :: "string \<Rightarrow> py_exception option"
  text_size :: "string \<Rightarrow> int \<times> int"



subsection \<open>FileProcessor\<close>











subsection \<open>The upload and snapshot handlers of the window\<close>






subsection \<open>CameraThread\<close>

datatype camera_signal =
    Frame_ready "image option"
  | Fps_update real
  | Camera_error string
  | Msleep int

record camera_thread =
  is_running :: bool
  port :: nat
  frame_count :: nat
  last_fps_time :: real
  frame_interval :: real
  last_frame_time :: real
  consecutive_failures :: nat
  max_failures :: nat

text \<open>\<^verbatim>\<open>__init__\<close>, with the time of construction.\<close>

definition init_camera :: "real \<Rightarrow> camera_thread" where
  "init_camera t =
     \<lparr>is_running = False, port = 0, frame_count = 0, last_fps_time = t,
      frame_interval = 1 / 60, last_frame_time = 0, consecutive_failures = 0,
      max_failures = 10\<rparr>"

definition stop_camera :: "camera_thread \<Rightarrow> camera_thread" where
  "stop_camera C = C\<lparr>is_running := False\<rparr>"

text \<open>
  \<^verbatim>\<open>start_camera\<close>: \<open>works p\<close> says whether port \<open>p\<close> opens and one of its three trial
  reads returns a frame. This is the path on which the class emits \<^verbatim>\<open>camera_error\<close>.
\<close>

definition start_camera ::
  "(nat \<Rightarrow> bool) \<Rightarrow> camera_thread \<Rightarrow> nat \<Rightarrow> bool \<times> camera_thread \<times> camera_signal list"
where
  "start_camera works C p =
     (case List.find works [p, 1, 2, 3] of
        Some test_port \<Rightarrow>
          (True, (stop_camera C)\<lparr>port := test_port, is_running := True,
                                  consecutive_failures := 0\<rparr>, [])
      | None \<Rightarrow> (False, stop_camera C, [Camera_error ''No camera found on ports 0-3'']))"

text \<open>
  What one iteration of the loop of \<^verbatim>\<open>run\<close> observes: whether \<^verbatim>\<open>stop_camera\<close> was
  called by the interface thread since the last iteration, the clock, whether the camera
  is there and open, and what \<^verbatim>\<open>camera.read()\<close> gives.
\<close>

record tick =
  stopped :: bool
  now :: real
  opened :: bool
  read_result :: "py_exception + (bool \<times> image option)"

definition count_failure :: "camera_thread \<Rightarrow> camera_thread" where
  "count_failure C = C\<lparr>consecutive_failures := consecutive_failures C + 1\<rparr>"

text \<open>The body of the loop; the last component says whether it left the loop by \<^verbatim>\<open>break\<close>.\<close>

definition camera_iteration :: "camera_thread \<Rightarrow> tick \<Rightarrow> camera_thread \<times> camera_signal list \<times> bool" where
  "camera_iteration C t =
     (let current_time = now t; time_since_last = current_time - last_frame_time C
      in if time_since_last < frame_interval C then
           (C, [Msleep (max 1 (py_int ((frame_interval C - time_since_last) * 1000)))], False)
         else if \<not> opened t then
           (let C1 = count_failure C
            in if max_failures C1 < consecutive_failures C1 then (C1, [], True)
               else (C1, [Msleep 10], False))
         else
           (case read_result t of
              Inl e \<Rightarrow>
                (let C1 = count_failure C
                 in if max_failures C1 < consecutive_failures C1 then (C1, [], True)
                    else (C1, [Msleep 1], False))
            | Inr (ret, frame) \<Rightarrow>
                if \<not> ret then
                  (let C1 = count_failure C
                   in if max_failures C1 < consecutive_failures C1 then (C1, [], True)
                      else (C1, [], False))
                else
                  (let C1 = C\<lparr>consecutive_failures := 0, last_frame_time := current_time,
                              frame_count := frame_count C + 1\<rparr>
                   in if 1 / 2 \<le> current_time - last_fps_time C1 then
                        (C1\<lparr>frame_count := 0, last_fps_time := current_time\<rparr>,
                         [Fps_update (real (frame_count C1) / (current_time - last_fps_time C1)),
                          Frame_ready frame], False)
                      else (C1, [Frame_ready frame], False))))"

text \<open>
  \<^verbatim>\<open>CameraThread.run\<close> over the observations of its iterations. The loop has no bound
  of its own: \<open>Looping\<close> says that it is still running after the last observation,
  \<open>Stopped\<close> that it found \<open>is_running\<close> cleared, \<open>Aborted\<close> that it left by \<^verbatim>\<open>break\<close>.
\<close>

datatype loop_exit = Looping | Stopped | Aborted

fun camera_run :: "camera_thread \<Rightarrow> tick list \<Rightarrow> camera_thread \<times> camera_signal list \<times> loop_exit" where
  "camera_run C [] = (C, [], if is_running C then Looping else Stopped)"
| "camera_run C (t # ts) =
     (let C0 = (if stopped t then stop_camera C else C)
      in if \<not> is_running C0 then (C0, [], Stopped)
         else (case camera_iteration C0 t of
                 (C1, sigs, left) \<Rightarrow>
                   if left then (C1, sigs, Aborted)
                   else (case camera_run C1 ts of
                           (C2, sigs', ex) \<Rightarrow> (C2, sigs @ sigs', ex))))"

subsection \<open>Example inputs\<close>

text \<open>
  A constructor that fails, and a model that reports a mug at 0.81 and a pen at 0.40 for
  every image.
\<close>

definition failing_YOLO :: "string \<Rightarrow> py_exception + yolo" where
  "failing_YOLO path = Inl (PyException ''FileNotFoundError'')"

definition example_boxes :: "box list" where
  "example_boxes =
     [\<lparr>box_conf = 81 / 100, box_cls = 5, box_xyxy = (10, 10, 100, 100)\<rparr>,
      \<lparr>box_conf = 40 / 100, box_cls = 7, box_xyxy = (200, 200, 50, 50)\<rparr>]"

definition example_predict :: "image \<Rightarrow> nat \<Rightarrow> nat \<Rightarrow> py_exception + result list" where
  "example_predict im imgsz max_det = Inr [\<lparr>boxes = Some (take max_det example_boxes)\<rparr>]"


definition example_yolo :: yolo where
  "example_yolo = \<lparr>names = Some default_names, warmup = None, predict = example_predict\<rparr>"


definition example_YOLO :: "string \<Rightarrow> py_exception + yolo" where
  "example_YOLO path = Inr example_yolo"


definition example_frame :: image where
  "example_frame = \<lparr>pixels = [7, 7, 7], drawn = []\<rparr>"

definition example_text_size :: "string \<Rightarrow> int \<times> int" where
  "example_text_size label = (9 * int (length label), 11)"

text \<open>The loader after \<^verbatim>\<open>load_model\<close> has succeeded, and after it has failed.\<close>

definition loaded_loader :: model_loader where
  "loaded_loader =
     (init_loader (Some example_YOLO))\<lparr>model := Some example_yolo, class_names := default_names\<rparr>"


definition mock_loader :: model_loader where
  "mock_loader =
     (init_loader (Some failing_YOLO))\<lparr>use_mock := True, class_names := [(0, ''Object'')]\<rparr>"

text \<open>
  A loader in placeholder mode whose worker runs and whose submission slot holds frame
  \<open>0\<close>, and a run in which one frame is submitted and processed.
\<close>

definition busy_loader :: model_loader where
  "busy_loader = (start_processing mock_loader)\<lparr>detection_queue := [0]\<rparr>"

definition example_events :: "event list" where
  "example_events = [Start_processing, Predict_async example_frame, Worker_iteration]"

text \<open>
  A started camera whose reads fail, a folder with a readable image, an unreadable file and
  a file on which \<^verbatim>\<open>imread\<close> raises, and the time of a snapshot.
\<close>

definition started_camera :: camera_thread where
  "started_camera = (init_camera 0)\<lparr>is_running := True\<rparr>"

definition failing_tick :: tick where
  "failing_tick = \<lparr>stopped = False, now = 1, opened = True, read_result = Inr (False, None)\<rparr>"









section \<open>Properties\<close>

subsection \<open>Loading the model\<close>

text \<open>
  C10. For every model path, \<^verbatim>\<open>load_model\<close> returns \<open>True\<close>: it never returns \<open>False\<close> and
  never raises. When constructing the model or warming it up fails, the loader switches to
  placeholder mode (\<open>use_mock\<close> set, \<open>class_names\<close> reduced to \<open>{0: 'Object'}\<close>) and the
  return value is still \<open>True\<close>, so \<^verbatim>\<open>MainWindow.load_model\<close> never logs
  \<^verbatim>\<open>Failed to load model\<close>.
\<close>

theorem load_model_always_True:
  "(\<exists>L'. load_model L model_path = Inr (True, L')) \<and>
   (\<not> use_mock L \<and> (YOLO L model_path = Inl e \<or>
        (\<exists>m. YOLO L model_path = Inr m \<and> warmup m = Some e))
      \<longrightarrow> (\<exists>L'. load_model L model_path = Inr (True, L') \<and> use_mock L' \<and>
                  class_names L' = [(0, ''Object'')])) \<and>
   (\<exists>msgs L'. window_load_model L = Inr (msgs, L') \<and> ''Failed to load model'' \<notin> set msgs)"
proof -
  have ret: "\<And>p. \<exists>L'. load_model L p = Inr (True, L')"
    by (auto simp: load_model_def Let_def split: sum.splits option.splits list.splits)
  have fail: "\<not> use_mock L \<and> (YOLO L model_path = Inl e \<or>
        (\<exists>m. YOLO L model_path = Inr m \<and> warmup m = Some e))
      \<longrightarrow> (\<exists>L'. load_model L model_path = Inr (True, L') \<and> use_mock L' \<and>
                  class_names L' = [(0, ''Object'')])"
    by (auto simp: load_model_def Let_def split: sum.splits option.splits list.splits)
  obtain L' where "load_model L ''trained_model/best.pt'' = Inr (True, L')"
    using ret by blast
  then have "\<exists>msgs L'. window_load_model L = Inr (msgs, L') \<and> ''Failed to load model'' \<notin> set msgs"
    by (simp add: window_load_model_def)
  with ret fail show ?thesis by blast
qed

theorem load_model_always_True_witness:
  "\<not> use_mock (init_loader (Some failing_YOLO)) \<and>
   YOLO (init_loader (Some failing_YOLO)) ''trained_model/best.pt''
     = Inl (PyException ''FileNotFoundError'') \<and>
   (\<exists>L'. load_model (init_loader (Some failing_YOLO)) ''trained_model/best.pt'' = Inr (True, L')
      \<and> use_mock L' \<and> class_names L' = [(0, ''Object'')])"
  using load_model_always_True [of "init_loader (Some failing_YOLO)" "''trained_model/best.pt''"
      "PyException ''FileNotFoundError''"]
  by (simp add: init_loader_def failing_YOLO_def)

subsection \<open>The highest confidence\<close>




lemma draw_on_copy:
  "foldl (\<lambda>h' op. draw h' (length h) op) (h @ [x]) ops = h @ [x\<lparr>drawn := drawn x @ ops\<rparr>]"
  by (induction ops arbitrary: x) (simp_all add: draw_def)

lemma draw_highest_on_copy:
  "\<exists>ops. draw_highest ts cn (h @ [x]) (length h) bs highest = h @ [x\<lparr>drawn := drawn x @ ops\<rparr>]"
proof (induction bs)
  case Nil
  have "h @ [x] = h @ [x\<lparr>drawn := drawn x @ []\<rparr>]" by simp
  then show ?case by (metis draw_highest.simps(1))
next
  case (Cons b bs)
  then show ?case by (auto simp: draw_on_copy)
qed

lemma predict_single_cases:
  "predict_single ts L h img = (h, img, None) \<or>
   (\<exists>d ops. predict_single ts L h img =
       (h @ [(h ! img)\<lparr>drawn := drawn (h ! img) @ ops\<rparr>], length h, Some d))"
  using draw_highest_on_copy [of ts "class_names L" h "h ! img"]
  by (auto simp: predict_single_def predict_single_body_def copy_image_def
           split: option.splits sum.splits list.splits prod.splits)


lemma fmt2f_example: "fmt2f (81 / 100) = ''0.81''" by code_simp


lemma predict_single_example: "predict_single example_text_size loaded_loader [example_frame] 0 =
  ([example_frame,
    example_frame\<lparr>drawn := [Rectangle (10, 10) (100, 100) (0, 255, 0) 2,
         Rectangle (10, - 11) (82, 10) (0, 255, 0) (- 1),
         PutText ''Mug 0.81'' (10, 5) (1 / 2) (255, 255, 255) 2]\<rparr>],
   1, Some \<lparr>class_name = ''Mug'', confidence = 81 / 100, class_id = Some 5\<rparr>)"
  by (simp add: predict_single_def loaded_loader_def init_loader_def example_yolo_def example_predict_def predict_single_body_def example_boxes_def default_names_def example_frame_def copy_image_def detection_of_def lookup_name_def annotate_def py_int_def draw_def example_text_size_def fmt2f_example)


subsection \<open>Errors of the inference\<close>



subsection \<open>The input frame\<close>

text \<open>
  C9. \<^verbatim>\<open>predict_single\<close> never writes into the array it is given (the model reads the
  array and does not write it). Every array that was live before the call has its
  content afterwards. Without a detection, on an error included, the store is unchanged
  and the input itself is returned; with a detection the returned array is a new one,
  distinct from the input, holding the pixels of the input and the drawing calls added to
  those of the input.
\<close>

theorem predict_single_keeps_input:
  assumes live: "img < length h"
  shows "case predict_single ts L h img of
           (h', out, det) \<Rightarrow>
             take (length h) h' = h \<and> h' ! img = h ! img \<and>
             (det = None \<longrightarrow> h' = h \<and> out = img) \<and>
             (det \<noteq> None \<longrightarrow> out = length h \<and> out \<noteq> img \<and> length h' = Suc (length h) \<and>
                pixels (h' ! out) = pixels (h ! img) \<and>
                (\<exists>ops. drawn (h' ! out) = drawn (h ! img) @ ops))"
proof -
  consider (same) "predict_single ts L h img = (h, img, None)"
    | (copy) d ops where "predict_single ts L h img =
        (h @ [(h ! img)\<lparr>drawn := drawn (h ! img) @ ops\<rparr>], length h, Some d)"
    using predict_single_cases [of ts L h img] by blast
  then show ?thesis
  proof cases
    case same
    then show ?thesis by simp
  next
    case copy
    then show ?thesis using live by (simp add: nth_append)
  qed
qed

theorem predict_single_keeps_input_witness:
  "(0::nat) < length [example_frame] \<and>
   (case predict_single example_text_size loaded_loader [example_frame] 0 of
      (h', out, det) \<Rightarrow> h' ! 0 = example_frame \<and> out = 1 \<and> det \<noteq> None)"
proof -
  have l: "(0::nat) < length [example_frame]" by simp
  from predict_single_keeps_input [OF l, of example_text_size loaded_loader] l
  show ?thesis by (simp add: predict_single_example)
qed

subsection \<open>The two slots\<close>

lemma predict_async_inv: "queue_inv L \<Longrightarrow> queue_inv (fst (predict_async L f))"
  by (auto simp: queue_inv_def predict_async_def put_nowait_def get_nowait_def Let_def
           split: list.splits option.splits)

lemma publish_inv:
  "length (detection_queue L) \<le> 1 \<Longrightarrow> detection_queue L = [] \<Longrightarrow> result_queue L = [] \<Longrightarrow> queue_inv (publish L r)"
  by (simp add: queue_inv_def publish_def Let_def)

lemma process_queue_step_inv: "queue_inv L \<Longrightarrow> queue_inv (fst (process_queue_step L h))"
  by (auto simp: queue_inv_def process_queue_step_def get_nowait_def publish_def Let_def copy_image_def
           split: list.splits option.splits sum.splits)

lemma step_inv: "queue_inv (fst s) \<Longrightarrow> queue_inv (fst (step s ev))"
proof (cases s)
  case (Pair L h)
  assume "queue_inv (fst s)"
  with Pair have inv: "queue_inv L" by simp
  show ?thesis
  proof (cases ev)
    case Start_processing
    with Pair inv show ?thesis by (simp add: start_processing_def queue_inv_def split: list.splits)
  next
    case Stop_processing
    with Pair inv show ?thesis by (simp add: stop_processing_def queue_inv_def split: list.splits)
  next
    case (Predict_async im)
    with Pair predict_async_inv [OF inv] show ?thesis by (simp add: new_image_def)
  next
    case Worker_iteration
    with Pair inv process_queue_step_inv [OF inv] show ?thesis by simp
  qed
qed

lemma run_inv: "queue_inv (fst s) \<Longrightarrow> queue_inv (fst (run s evs))"
  unfolding run_def by (induction evs arbitrary: s) (simp_all add: step_inv)

lemma init_inv:
  "detection_queue L = [] \<Longrightarrow> result_queue L = [] \<Longrightarrow> queue_inv L"
  by (simp add: queue_inv_def)

lemma predict_async_returns:
  assumes "queue_inv L"
  shows "snd (predict_async L f) =
     (if is_processing L then (case last_result L of None \<Rightarrow> (f, None) | Some r \<Rightarrow> r) else (f, None))"
  using assms
  by (auto simp: queue_inv_def predict_async_def put_nowait_def get_nowait_def Let_def
           split: list.splits option.splits)


lemma length_step:
  "length (detection_queue (fst s)) \<le> 1 \<Longrightarrow> length (detection_queue (fst (step s ev))) \<le> 1"
proof (cases s)
  case (Pair L h)
  assume "length (detection_queue (fst s)) \<le> 1"
  with Pair have le: "length (detection_queue L) \<le> 1" by simp
  show ?thesis
  proof (cases ev)
    case Start_processing
    with Pair le show ?thesis by (simp add: start_processing_def)
  next
    case Stop_processing
    with Pair le show ?thesis by (simp add: stop_processing_def)
  next
    case (Predict_async im)
    with Pair le show ?thesis
      by (auto simp: new_image_def predict_async_def put_nowait_def get_nowait_def Let_def
               split: list.splits option.splits)
  next
    case Worker_iteration
    with Pair le show ?thesis
      by (auto simp: process_queue_step_def get_nowait_def publish_def Let_def copy_image_def
               split: list.splits option.splits sum.splits)
  qed
qed

lemma length_run:
  "length (detection_queue (fst s)) \<le> 1 \<Longrightarrow> length (detection_queue (fst (run s evs))) \<le> 1"
  unfolding run_def
proof (induction evs arbitrary: s)
  case Nil
  then show ?case by simp
next
  case (Cons ev evs)
  from Cons.prems have "length (detection_queue (fst (step s ev))) \<le> 1"
    by (rule length_step)
  then have "length (detection_queue (fst (foldl step (step s ev) evs))) \<le> 1"
    by (rule Cons.IH)
  then show ?case by simp
qed

lemma occupied_put_nowait: "q \<noteq> [] \<Longrightarrow> put_nowait 1 q x = Inl (PyException ''Full'')"
  by (cases q) (simp_all add: put_nowait_def)

lemma occupied_predict_async:
  "detection_queue L \<noteq> [] \<Longrightarrow> detection_queue (fst (predict_async L g)) = detection_queue L"
  by (auto simp: predict_async_def get_nowait_def Let_def split: list.splits option.splits)

lemma worker_takes_oldest:
  "detection_queue L = f # q \<Longrightarrow>
   get_nowait (detection_queue (fst (predict_async L g))) = Inr (f, q) \<and>
   detection_queue (fst (process_queue_step (fst (predict_async L g)) h)) = q"
proof -
  assume dq: "detection_queue L = f # q"
  then have same: "detection_queue (fst (predict_async L g)) = f # q"
    using occupied_predict_async [of L g] by simp
  then show ?thesis
    by (auto simp: process_queue_step_def get_nowait_def publish_def Let_def copy_image_def
             split: list.splits option.splits sum.splits)
qed

text \<open>
  C3. \<^verbatim>\<open>put_nowait\<close> on the occupied slot raises \<^verbatim>\<open>Full\<close> instead of waiting, and
  \<^verbatim>\<open>predict_async\<close> called while a frame \<open>f\<close> waits leaves the slot as it is: the new
  frame is dropped, and \<open>f\<close> is the frame that the next iteration of the worker takes.
  In every run of the two threads the slot never holds more than one frame.
\<close>

theorem submit_when_occupied_is_dropped:
  "(q \<noteq> [] \<longrightarrow> put_nowait 1 q (g::ref) = Inl (PyException ''Full'')) \<and>
   (detection_queue L = f # fs \<longrightarrow>
      detection_queue (fst (predict_async L g)) = f # fs \<and>
      get_nowait (detection_queue (fst (predict_async L g))) = Inr (f, fs) \<and>
      detection_queue (fst (process_queue_step (fst (predict_async L g)) h)) = fs) \<and>
   (length (detection_queue L0) \<le> 1 \<longrightarrow>
      length (detection_queue (fst (run (L0, h0) evs))) \<le> 1)"
  using occupied_put_nowait [of q g] occupied_predict_async [of L g]
    worker_takes_oldest [of L f fs g h] length_run [of "(L0, h0)" evs]
  by simp

theorem submit_when_occupied_is_dropped_witness:
  "[0::nat] \<noteq> [] \<and> put_nowait 1 [0] (1::ref) = Inl (PyException ''Full'') \<and>
   detection_queue busy_loader = [0] \<and>
   detection_queue (fst (predict_async busy_loader 1)) = [0] \<and>
   get_nowait (detection_queue (fst (predict_async busy_loader 1))) = Inr (0, []) \<and>
   length (detection_queue mock_loader) \<le> 1 \<and>
   length (detection_queue (fst (run (mock_loader, [])
      [Start_processing, Predict_async example_frame, Predict_async example_frame]))) \<le> 1"
proof -
  have a: "detection_queue busy_loader = [0]" by (simp add: busy_loader_def)
  have b: "length (detection_queue mock_loader) \<le> 1"
    by (simp add: mock_loader_def init_loader_def)
  from submit_when_occupied_is_dropped [of "[0]" 1 busy_loader 0 "[]" "[]" mock_loader "[]"
      "[Start_processing, Predict_async example_frame, Predict_async example_frame]"] a b
  show ?thesis by (simp add: get_nowait_def)
qed




lemma mock_trace_example:
  "snd (predict_async (fst (run (mock_loader, []) example_events)) 5) = (1, Some mock_detection)"
  by (simp add: run_def example_events_def mock_loader_def init_loader_def start_processing_def
      new_image_def predict_async_def put_nowait_def get_nowait_def process_queue_step_def
      copy_image_def draw_def publish_def Let_def)


subsection \<open>Placeholder mode\<close>

lemma mock_step: "mock_inv (fst s) \<Longrightarrow> mock_inv (fst (step s ev))"
  by (cases s; cases ev)
     (auto simp: mock_inv_def start_processing_def stop_processing_def new_image_def
        predict_async_def put_nowait_def get_nowait_def process_queue_step_def publish_def
        copy_image_def Let_def split: list.splits option.splits)

lemma mock_run: "mock_inv (fst s) \<Longrightarrow> mock_inv (fst (run s evs))"
  unfolding run_def by (induction evs arbitrary: s) (simp_all add: mock_step)

lemma mock_predict_single: "use_mock L \<Longrightarrow> predict_single ts L h img = (h, img, None)"
  by (simp add: predict_single_def split: option.splits)

lemma mock_process_queue_step:
  "use_mock L \<Longrightarrow> detection_queue L = f # fs \<Longrightarrow>
   process_queue_step L h =
     (publish (L\<lparr>detection_queue := fs\<rparr>) (length h, Some mock_detection),
      h @ [(h ! f)\<lparr>drawn := drawn (h ! f) @
             [Rectangle (50, 50) (200, 200) (0, 255, 0) 2,
              PutText ''Mock Detection'' (60, 40) (7 / 10) (0, 255, 0) 2]\<rparr>])"
  by (simp add: process_queue_step_def get_nowait_def copy_image_def draw_def Let_def)

lemma load_failure:
  "\<not> use_mock L \<Longrightarrow>
   YOLO L model_path = Inl e \<or> (\<exists>m. YOLO L model_path = Inr m \<and> warmup m = Some e) \<Longrightarrow>
   \<exists>L1. load_model L model_path = Inr (True, L1) \<and> use_mock L1 \<and>
      detection_queue L1 = detection_queue L \<and> result_queue L1 = result_queue L \<and>
      last_result L1 = last_result L"
  by (auto simp: load_model_def Let_def split: sum.splits option.splits list.splits)

text \<open>
  C2, as stated, fails: after a failed load \<^verbatim>\<open>predict_single\<close> returns no detection.
\<close>

theorem placeholder_is_absent_in_predict_single:
  "load_model (init_loader (Some failing_YOLO)) ''trained_model/best.pt'' = Inr (True, mock_loader) \<and>
   predict_single example_text_size mock_loader [example_frame] 0 = ([example_frame], 0, None)"
  by (simp add: load_model_def init_loader_def failing_YOLO_def mock_loader_def predict_single_def)

text \<open>
  C2, amended. After a failure of the constructor or of the warm-up, \<^verbatim>\<open>load_model\<close>
  returns \<open>True\<close> and the loader stays in placeholder mode in every later state. There
  \<^verbatim>\<open>predict_single\<close> returns the image it was given and no detection; an iteration of
  the worker that takes a frame remembers the detection of class \<^verbatim>\<open>Mock\<close> with
  confidence 0.95 and draws the rectangle from (50, 50) to (200, 200) and the text
  \<^verbatim>\<open>Mock Detection\<close> on a copy of the frame; \<^verbatim>\<open>predict_async\<close> returns that
  detection when the worker is processing and a result has been remembered, and no
  detection otherwise.
\<close>

theorem placeholder_mode_after_load_failure:
  assumes fresh: "detection_queue L = []" "result_queue L = []" "last_result L = None"
    and fail: "\<not> use_mock L"
      "YOLO L model_path = Inl e \<or> (\<exists>m. YOLO L model_path = Inr m \<and> warmup m = Some e)"
  shows "\<exists>L1. load_model L model_path = Inr (True, L1) \<and>
     use_mock (fst (run (L1, h0) evs)) \<and>
     predict_single ts (fst (run (L1, h0) evs)) h img = (h, img, None) \<and>
     snd (snd (predict_async (fst (run (L1, h0) evs)) frame)) =
       (if is_processing (fst (run (L1, h0) evs)) \<and> last_result (fst (run (L1, h0) evs)) \<noteq> None
        then Some mock_detection else None) \<and>
     (\<forall>f fs. detection_queue (fst (run (L1, h0) evs)) = f # fs \<longrightarrow>
        process_queue_step (fst (run (L1, h0) evs)) h =
          (publish ((fst (run (L1, h0) evs))\<lparr>detection_queue := fs\<rparr>)
             (length h, Some mock_detection),
           h @ [(h ! f)\<lparr>drawn := drawn (h ! f) @
                  [Rectangle (50, 50) (200, 200) (0, 255, 0) 2,
                   PutText ''Mock Detection'' (60, 40) (7 / 10) (0, 255, 0) 2]\<rparr>]))"
proof -
  from load_failure [OF fail] obtain L1 where L1:
    "load_model L model_path = Inr (True, L1)" "use_mock L1"
    "detection_queue L1 = []" "result_queue L1 = []" "last_result L1 = None"
    using fresh by auto
  define L2 where "L2 = fst (run (L1, h0) evs)"
  have "queue_inv (fst (L1, h0))" using L1 by (simp add: init_inv)
  then have qi: "queue_inv L2" unfolding L2_def by (rule run_inv)
  have "mock_inv (fst (L1, h0))" using L1 by (simp add: mock_inv_def)
  then have mi: "mock_inv L2" unfolding L2_def by (rule mock_run)
  then have um: "use_mock L2" by (simp add: mock_inv_def)
  have ps: "predict_single ts L2 h img = (h, img, None)"
    using um by (rule mock_predict_single)
  have pa: "snd (snd (predict_async L2 frame)) =
       (if is_processing L2 \<and> last_result L2 \<noteq> None then Some mock_detection else None)"
    using predict_async_returns [OF qi, of frame] mi
    by (auto simp: mock_inv_def split: option.splits)
  have wk: "\<forall>f fs. detection_queue L2 = f # fs \<longrightarrow>
        process_queue_step L2 h =
          (publish (L2\<lparr>detection_queue := fs\<rparr>) (length h, Some mock_detection),
           h @ [(h ! f)\<lparr>drawn := drawn (h ! f) @
                  [Rectangle (50, 50) (200, 200) (0, 255, 0) 2,
                   PutText ''Mock Detection'' (60, 40) (7 / 10) (0, 255, 0) 2]\<rparr>])"
    using mock_process_queue_step [OF um] by blast
  from L1(1) um ps pa wk show ?thesis unfolding L2_def by blast
qed

theorem placeholder_mode_after_load_failure_witness:
  "detection_queue (init_loader (Some failing_YOLO)) = [] \<and>
   result_queue (init_loader (Some failing_YOLO)) = [] \<and>
   last_result (init_loader (Some failing_YOLO)) = None \<and>
   \<not> use_mock (init_loader (Some failing_YOLO)) \<and>
   YOLO (init_loader (Some failing_YOLO)) ''trained_model/best.pt''
     = Inl (PyException ''FileNotFoundError'') \<and>
   (\<exists>L1. load_model (init_loader (Some failing_YOLO)) ''trained_model/best.pt'' = Inr (True, L1) \<and>
      use_mock (fst (run (L1, []) example_events)) \<and>
      predict_single example_text_size (fst (run (L1, []) example_events)) [example_frame] 0
        = ([example_frame], 0, None) \<and>
      snd (snd (predict_async (fst (run (L1, []) example_events)) 5)) =
        (if is_processing (fst (run (L1, []) example_events)) \<and>
            last_result (fst (run (L1, []) example_events)) \<noteq> None
         then Some mock_detection else None))"
proof -
  have fresh: "detection_queue (init_loader (Some failing_YOLO)) = []"
    "result_queue (init_loader (Some failing_YOLO)) = []"
    "last_result (init_loader (Some failing_YOLO)) = None"
    and nm: "\<not> use_mock (init_loader (Some failing_YOLO))"
    by (simp_all add: init_loader_def)
  have y: "YOLO (init_loader (Some failing_YOLO)) ''trained_model/best.pt''
     = Inl (PyException ''FileNotFoundError'')"
    by (simp add: init_loader_def failing_YOLO_def)
  then have fl: "YOLO (init_loader (Some failing_YOLO)) ''trained_model/best.pt''
       = Inl (PyException ''FileNotFoundError'') \<or>
     (\<exists>m. YOLO (init_loader (Some failing_YOLO)) ''trained_model/best.pt'' = Inr m \<and>
        warmup m = Some (PyException ''FileNotFoundError''))"
    by simp
  from placeholder_mode_after_load_failure [OF fresh nm fl, of "[]" example_events
      example_text_size "[example_frame]" 0 5] fresh nm y
  show ?thesis by blast
qed

subsection \<open>The batch of files\<close>




















subsection \<open>The names of the files written\<close>

lemma path_join_output: "path_join ''output'' (''detected_'' @ x) = ''output/detected_'' @ x"
  by (simp add: path_join_def)














subsection \<open>The capture loop\<close>

lemma camera_iteration_no_error: "Camera_error msg \<notin> set (fst (snd (camera_iteration C t)))"
  by (auto simp: camera_iteration_def Let_def split: sum.splits prod.splits)

lemma camera_iteration_is_running: "is_running (fst (camera_iteration C t)) = is_running C"
  by (auto simp: camera_iteration_def count_failure_def Let_def split: sum.splits prod.splits)

lemma camera_run_Cons:
  "camera_run C (t # ts) =
     (let C0 = (if stopped t then stop_camera C else C)
      in if \<not> is_running C0 then (C0, [], Stopped)
         else if snd (snd (camera_iteration C0 t))
              then (fst (camera_iteration C0 t), fst (snd (camera_iteration C0 t)), Aborted)
              else (fst (camera_run (fst (camera_iteration C0 t)) ts),
                    fst (snd (camera_iteration C0 t))
                      @ fst (snd (camera_run (fst (camera_iteration C0 t)) ts)),
                    snd (snd (camera_run (fst (camera_iteration C0 t)) ts))))"
  by (simp add: Let_def split: prod.splits)

lemma camera_run_no_error: "Camera_error msg \<notin> set (fst (snd (camera_run C ts)))"
proof (induction ts arbitrary: C)
  case Nil
  then show ?case by simp
next
  case (Cons t ts)
  show ?case
    unfolding camera_run_Cons
    using camera_iteration_no_error Cons.IH by (simp add: Let_def)
qed

lemma camera_run_is_running:
  "\<forall>t\<in>set ts. \<not> stopped t \<Longrightarrow> is_running (fst (camera_run C ts)) = is_running C"
proof (induction ts arbitrary: C)
  case Nil
  then show ?case by simp
next
  case (Cons t ts)
  then have "\<not> stopped t" and rest: "\<forall>t\<in>set ts. \<not> stopped t" by auto
  then show ?case
    unfolding camera_run_Cons
    using camera_iteration_is_running [of C t] Cons.IH [OF rest]
    by (simp add: Let_def)
qed

lemma camera_iteration_break:
  "snd (snd (camera_iteration C t)) \<Longrightarrow>
   max_failures C < consecutive_failures (fst (camera_iteration C t)) \<and>
   consecutive_failures (fst (camera_iteration C t)) = consecutive_failures C + 1"
  by (auto simp: camera_iteration_def count_failure_def Let_def split: sum.splits prod.splits if_splits)

lemma camera_iteration_exceeds:
  "frame_interval C \<le> now t - last_frame_time C \<Longrightarrow>
   \<not> opened t \<or> (\<exists>e. read_result t = Inl e) \<or> (\<exists>f. read_result t = Inr (False, f)) \<Longrightarrow>
   max_failures C \<le> consecutive_failures C \<Longrightarrow>
   snd (snd (camera_iteration C t))"
  by (auto simp: camera_iteration_def count_failure_def Let_def split: sum.splits prod.splits)

text \<open>
  C7. After eleven failed reads in a row the loop is left by \<^verbatim>\<open>break\<close>, with
  \<open>is_running\<close> still set and without any signal: \<^verbatim>\<open>camera_error\<close>, which
  \<^verbatim>\<open>start_camera\<close> emits when no port works, is not emitted by the loop.
\<close>

theorem camera_abort_is_silent:
  "camera_run started_camera (replicate 11 failing_tick) =
     (started_camera\<lparr>consecutive_failures := 11\<rparr>, [], Aborted) \<and>
   is_running (started_camera\<lparr>consecutive_failures := 11\<rparr>)"
  by (simp add: eval_nat_numeral started_camera_def init_camera_def failing_tick_def
      camera_iteration_def count_failure_def Let_def)

end
